theory Spec2Isabelle
  imports Main
begin

section \<open>Strings, characters and numbers of the host language\<close>

text \<open>
  The tools are TypeScript. A string is modelled as a list of code units below 256 (the
  Latin-1 range of a JavaScript string); \<open>code c\<close> is the code unit of \<open>c\<close>.
  \<open>undefined\<close> and \<open>null\<close> are \<open>None\<close>.
\<close>

definition code :: "char \<Rightarrow> nat" where
  "code c = of_char c"

text \<open>\<open>\s\<close>, \<open>trimEnd\<close> and \<open>parseInt\<close> share one white space set: tab, the line
  terminators, VT, FF, space and NBSP are its members below 256.\<close>

definition isWhiteSpace :: "char \<Rightarrow> bool" where
  "isWhiteSpace c = (code c \<in> {9, 10, 11, 12, 13, 32, 160})"

definition isLineTerminator :: "char \<Rightarrow> bool" where
  "isLineTerminator c = (code c \<in> {10, 13})"

definition isDigit :: "char \<Rightarrow> bool" where
  "isDigit c = (48 \<le> code c \<and> code c \<le> 57)"

definition toLowerChar :: "char \<Rightarrow> char" where
  "toLowerChar c =
     (if (65 \<le> code c \<and> code c \<le> 90) \<or> (192 \<le> code c \<and> code c \<le> 222 \<and> code c \<noteq> 215)
      then char_of (code c + 32) else c)"

text \<open>\<open>Canonicalize\<close> of a case-insensitive, non-unicode pattern: the simple upper case
  mapping. Micro sign, sharp s and y with diaeresis have no upper case below 256 and stay
  as they are, which leaves every comparison below unchanged.\<close>

definition canonicalize :: "char \<Rightarrow> char" where
  "canonicalize c =
     (if (97 \<le> code c \<and> code c \<le> 122) \<or> (224 \<le> code c \<and> code c \<le> 254 \<and> code c \<noteq> 247)
      then char_of (code c - 32) else c)"

definition toLowerCase :: "string \<Rightarrow> string" where
  "toLowerCase s = map toLowerChar s"

definition trimEnd :: "string \<Rightarrow> string" where
  "trimEnd s = rev (dropWhile isWhiteSpace (rev s))"

text \<open>A number is an integer or \<open>NaN\<close>; the tools only produce numbers by \<open>parseInt\<close>.
  Rounding of integers beyond \<open>2^53\<close> is outside the model.\<close>

datatype number = NaN | Num int

definition digitChar :: "nat \<Rightarrow> char" where
  "digitChar d = ''0123456789abcdefghijklmnopqrstuvwxyz'' ! d"

function natToString :: "nat \<Rightarrow> nat \<Rightarrow> string" where
  "natToString radix n =
     (if n < radix \<or> radix < 2 then [digitChar n]
      else natToString radix (n div radix) @ [digitChar (n mod radix)])"
  by pat_completeness auto
termination
  by (relation "measure (\<lambda>(radix, n). n)") auto

declare natToString.simps [simp del]

text \<open>\<open>Number.prototype.toString(radix)\<close> and, with radix 10, template interpolation.\<close>

definition numberToString :: "nat \<Rightarrow> number \<Rightarrow> string" where
  "numberToString radix x =
     (case x of
        NaN \<Rightarrow> ''NaN''
      | Num i \<Rightarrow> (if i < 0 then ''-'' @ natToString radix (nat (- i)) else natToString radix (nat i)))"

definition digitValue :: "char \<Rightarrow> nat option" where
  "digitValue c =
     (if 48 \<le> code c \<and> code c \<le> 57 then Some (code c - 48)
      else if 97 \<le> code c \<and> code c \<le> 122 then Some (code c - 87)
      else if 65 \<le> code c \<and> code c \<le> 90 then Some (code c - 55)
      else None)"

definition isRadixDigit :: "nat \<Rightarrow> char \<Rightarrow> bool" where
  "isRadixDigit radix c = (case digitValue c of None \<Rightarrow> False | Some d \<Rightarrow> d < radix)"

definition digitsValue :: "nat \<Rightarrow> string \<Rightarrow> nat" where
  "digitsValue radix z = foldl (\<lambda>acc c. acc * radix + the (digitValue c)) 0 z"

text \<open>\<open>parseInt(string, radix)\<close>: leading white space and a sign are skipped, a \<open>0x\<close>
  prefix selects radix 16 when the radix is 16 or not given, and the longest prefix of
  digits of the radix is read; no digit gives \<open>NaN\<close>.\<close>

definition parseInt :: "string \<Rightarrow> nat option \<Rightarrow> number" where
  "parseInt inputString radix =
     (let s0 = dropWhile isWhiteSpace inputString;
          negative = (s0 \<noteq> [] \<and> hd s0 = CHR ''-'');
          s1 = (if s0 \<noteq> [] \<and> (hd s0 = CHR ''+'' \<or> hd s0 = CHR ''-'') then tl s0 else s0);
          r0 = (case radix of None \<Rightarrow> 0 | Some r \<Rightarrow> r);
          stripPrefix = (r0 = 0 \<or> r0 = 16);
          hasPrefix = (stripPrefix \<and> (take 2 s1 = ''0x'' \<or> take 2 s1 = ''0X''));
          r = (if hasPrefix then 16 else if r0 = 0 then 10 else r0);
          s2 = (if hasPrefix then drop 2 s1 else s1);
          z = takeWhile (isRadixDigit r) s2
      in if r0 \<noteq> 0 \<and> (r0 < 2 \<or> 36 < r0) then NaN
         else if z = [] then NaN
         else Num ((if negative then - 1 else 1) * int (digitsValue r z)))"

section \<open>Regular expressions\<close>

text \<open>
  The patterns of the tools are sequences of quantified character classes, without
  alternation, anchors or assertions, and all of them carry the \<open>g\<close> flag. The capture
  groups of the source patterns are dropped: no caller reads them. A \<open>RegExp\<close> object
  also owns a mutable \<open>lastIndex\<close>; it lives in a store, at the address \<open>re_addr\<close>.
\<close>

datatype cclass = Digit | WhiteSpace | AnyChar | Lit char | Ranges "(char \<times> char) list"

datatype quant = Once | Optional | OneOrMore | Exactly nat

record regexp =
  re_atoms :: "(cclass \<times> quant) list"
  re_ignoreCase :: bool
  re_addr :: nat

type_synonym store = "nat list"

fun baseMatch :: "cclass \<Rightarrow> char \<Rightarrow> bool" where
  "baseMatch Digit c = isDigit c"
| "baseMatch WhiteSpace c = isWhiteSpace c"
| "baseMatch AnyChar c = (\<not> isLineTerminator c)"
| "baseMatch (Lit l) c = (c = l)"
| "baseMatch (Ranges rs) c = list_ex (\<lambda>(lo, hi). code lo \<le> code c \<and> code c \<le> code hi) rs"

text \<open>With the \<open>i\<close> flag a literal or a range also accepts the other case of the
  character; the escapes \<open>\d\<close>, \<open>\s\<close> and the dot are closed under case.\<close>

definition charMatch :: "bool \<Rightarrow> cclass \<Rightarrow> char \<Rightarrow> bool" where
  "charMatch ic cls c =
     (baseMatch cls c \<or> (ic \<and> (baseMatch cls (canonicalize c) \<or> baseMatch cls (toLowerChar c))))"

text \<open>\<open>matchHere ic as s\<close> is the length of the match of the atoms at the start of
  \<open>s\<close>, found as a backtracking matcher finds it: a greedy quantifier takes as much as
  it can and gives back one character at a time.\<close>

fun matchHere :: "bool \<Rightarrow> (cclass \<times> quant) list \<Rightarrow> string \<Rightarrow> nat option" where
  "matchHere ic [] s = Some 0"
| "matchHere ic ((cls, Once) # as) [] = None"
| "matchHere ic ((cls, Once) # as) (c # s) =
     (if charMatch ic cls c then map_option Suc (matchHere ic as s) else None)"
| "matchHere ic ((cls, Optional) # as) [] = matchHere ic as []"
| "matchHere ic ((cls, Optional) # as) (c # s) =
     (if charMatch ic cls c
      then (case matchHere ic as s of
              Some n \<Rightarrow> Some (Suc n)
            | None \<Rightarrow> matchHere ic as (c # s))
      else matchHere ic as (c # s))"
| "matchHere ic ((cls, OneOrMore) # as) [] = None"
| "matchHere ic ((cls, OneOrMore) # as) (c # s) =
     (if charMatch ic cls c
      then (case matchHere ic ((cls, OneOrMore) # as) s of
              Some n \<Rightarrow> Some (Suc n)
            | None \<Rightarrow> map_option Suc (matchHere ic as s))
      else None)"
| "matchHere ic ((cls, Exactly 0) # as) s = matchHere ic as s"
| "matchHere ic ((cls, Exactly (Suc k)) # as) [] = None"
| "matchHere ic ((cls, Exactly (Suc k)) # as) (c # s) =
     (if charMatch ic cls c then map_option Suc (matchHere ic ((cls, Exactly k) # as) s) else None)"

text \<open>The leftmost match: its start and its length.\<close>

fun search :: "bool \<Rightarrow> (cclass \<times> quant) list \<Rightarrow> string \<Rightarrow> (nat \<times> nat) option" where
  "search ic as [] = map_option (\<lambda>n. (0, n)) (matchHere ic as [])"
| "search ic as (c # s) =
     (case matchHere ic as (c # s) of
        Some n \<Rightarrow> Some (0, n)
      | None \<Rightarrow> map_option (\<lambda>(i, n). (Suc i, n)) (search ic as s))"

text \<open>\<open>RegExp.prototype.exec\<close> as \<open>test\<close> uses it on a global pattern: the search
  starts at \<open>lastIndex\<close>; the end of the match is stored there, or 0 when nothing
  matches. The result is the start and the length of the match.\<close>

definition regExpExec :: "store \<Rightarrow> regexp \<Rightarrow> string \<Rightarrow> (nat \<times> nat) option \<times> store" where
  "regExpExec h re s =
     (let lastIndex = h ! re_addr re
      in if length s < lastIndex then (None, h[re_addr re := 0])
         else (case search (re_ignoreCase re) (re_atoms re) (drop lastIndex s) of
                 None \<Rightarrow> (None, h[re_addr re := 0])
               | Some (i, n) \<Rightarrow> (Some (lastIndex + i, n), h[re_addr re := lastIndex + i + n])))"

definition test :: "store \<Rightarrow> regexp \<Rightarrow> string \<Rightarrow> bool \<times> store" where
  "test h re s = (case regExpExec h re s of (r, h') \<Rightarrow> (r \<noteq> None, h'))"

text \<open>\<open>String.prototype.match\<close> with a global pattern sets \<open>lastIndex\<close> to 0, collects
  the matches from left to right and ends on the failed search that leaves \<open>lastIndex\<close>
  at 0. The callers read element 0 of the result only: the leftmost match, \<open>firstMatch\<close>,
  or \<open>None\<close> where \<open>match\<close> returns \<open>null\<close>.\<close>

definition firstMatch :: "regexp \<Rightarrow> string \<Rightarrow> string option" where
  "firstMatch re s =
     map_option (\<lambda>(i, n). take n (drop i s)) (search (re_ignoreCase re) (re_atoms re) s)"

definition match0 :: "store \<Rightarrow> regexp \<Rightarrow> string \<Rightarrow> string option \<times> store" where
  "match0 h re s = (firstMatch re s, h[re_addr re := 0])"

section \<open>JSON text of the diagnostics\<close>

text \<open>\<open>JSON.stringify\<close> on strings, on arrays of strings and on the object
  \<open>{ name, values }\<close> that the color error messages print with a tab as indentation.\<close>

definition hex4 :: "nat \<Rightarrow> string" where
  "hex4 n = map (\<lambda>k. digitChar ((n div 16 ^ k) mod 16)) [3, 2, 1, 0]"

definition quoteJSONChar :: "char \<Rightarrow> string" where
  "quoteJSONChar c =
     (if code c = 8 then [CHR 0x5C, CHR ''b'']
      else if code c = 9 then [CHR 0x5C, CHR ''t'']
      else if code c = 10 then [CHR 0x5C, CHR ''n'']
      else if code c = 12 then [CHR 0x5C, CHR ''f'']
      else if code c = 13 then [CHR 0x5C, CHR ''r'']
      else if code c = 34 then [CHR 0x5C, CHR 0x22]
      else if code c = 92 then [CHR 0x5C, CHR 0x5C]
      else if code c < 32 then [CHR 0x5C, CHR ''u''] @ hex4 (code c)
      else [c])"

definition quoteJSONString :: "string \<Rightarrow> string" where
  "quoteJSONString s = [CHR 0x22] @ concat (map quoteJSONChar s) @ [CHR 0x22]"

fun join :: "string \<Rightarrow> string list \<Rightarrow> string" where
  "join sep [] = []"
| "join sep [x] = x"
| "join sep (x # y # ys) = x @ sep @ join sep (y # ys)"

definition stringifyStrings :: "string list \<Rightarrow> string" where
  "stringifyStrings xs = ''['' @ join '','' (map quoteJSONString xs) @ '']''"

text \<open>An \<open>undefined\<close> array element prints as \<open>null\<close>; an \<open>undefined\<close> property is
  left out.\<close>

definition stringifyElement :: "string option \<Rightarrow> string" where
  "stringifyElement v = (case v of None \<Rightarrow> ''null'' | Some t \<Rightarrow> quoteJSONString t)"

definition stringifyNameValues :: "string option \<Rightarrow> string option list \<Rightarrow> string" where
  "stringifyNameValues name vals =
     (let nl = [CHR 0x0A]; tab = [CHR 0x09];
          arr = (if vals = [] then ''[]''
                 else ''['' @ nl @ tab @ tab
                      @ join ('','' @ nl @ tab @ tab) (map stringifyElement vals)
                      @ nl @ tab @ '']'');
          props = (case name of None \<Rightarrow> [] | Some n \<Rightarrow> [quoteJSONString ''name'' @ '': '' @ quoteJSONString n])
                  @ [quoteJSONString ''values'' @ '': '' @ arr]
      in ''{'' @ nl @ tab @ join ('','' @ nl @ tab) props @ nl @ ''}'')"

section \<open>Color definitions\<close>

datatype error = InvalidColorParametersError string | TypeError string

text \<open>\<open>InvalidColorParametersError\<close>: the message given, or the default one.\<close>

definition newInvalidColorParametersError ::
    "string option \<Rightarrow> string option \<Rightarrow> string option list \<Rightarrow> error" where
  "newInvalidColorParametersError message name vals =
     InvalidColorParametersError
       (case message of
          Some m \<Rightarrow> m
        | None \<Rightarrow> ''Invalid color parameters were provided: '' @ stringifyNameValues name vals)"

fun isInvalidColorParametersError :: "error \<Rightarrow> bool" where
  "isInvalidColorParametersError (InvalidColorParametersError m) = True"
| "isInvalidColorParametersError (TypeError m) = False"

text \<open>The four patterns are objects of the module, shared by every constructor call; they
  occupy the first four cells of the store.\<close>

definition pmsRe :: regexp where
  "pmsRe = \<lparr>re_atoms = [(Digit, OneOrMore), (WhiteSpace, OneOrMore), (Digit, OneOrMore),
                         (Lit CHR ''%'', Once)],
            re_ignoreCase = True, re_addr = 0\<rparr>"

definition rgbRe :: regexp where
  "rgbRe = \<lparr>re_atoms = [(Digit, OneOrMore), (Lit CHR '','', Once), (WhiteSpace, Once),
                         (Digit, OneOrMore), (Lit CHR '','', Once), (WhiteSpace, Once),
                         (Digit, OneOrMore)],
            re_ignoreCase = False, re_addr = 1\<rparr>"

definition hexRe :: regexp where
  "hexRe = \<lparr>re_atoms = [(Ranges [(CHR ''0'', CHR ''9''), (CHR ''a'', CHR ''f'')], Exactly 6)],
            re_ignoreCase = True, re_addr = 2\<rparr>"

definition sameAsRe :: regexp where
  "sameAsRe = \<lparr>re_atoms = map (\<lambda>c. (Lit c, Once)) ''Same as'' @ [(AnyChar, OneOrMore)],
               re_ignoreCase = True, re_addr = 3\<rparr>"

record ColorInfo =
  name :: string
  pms :: "string option"
  rgb :: "number list option"
  hex :: "number option"
  sameAs :: "string option"

definition isValid :: "ColorInfo \<Rightarrow> bool" where
  "isValid this = (rgb this \<noteq> None \<or> hex this \<noteq> None)"

text \<open>\<open>split(/,\s/g)\<close>: the pieces between the occurrences of a comma followed by one
  white space character.\<close>

fun splitCommaSpace :: "string \<Rightarrow> string list" where
  "splitCommaSpace [] = [[]]"
| "splitCommaSpace [c] = [[c]]"
| "splitCommaSpace (c # d # s) =
     (if c = CHR '','' \<and> isWhiteSpace d then [] # splitCommaSpace s
      else (case splitCommaSpace (d # s) of
              [] \<Rightarrow> [[c]]
            | p # ps \<Rightarrow> (c # p) # ps))"

text \<open>The body of the constructor's loop over the values: the record and the store before
  one value, and after it.\<close>

fun scanValue :: "ColorInfo \<times> store \<Rightarrow> string option \<Rightarrow> ColorInfo \<times> store" where
  "scanValue (this, h) None = (this, h)"
| "scanValue (this, h) (Some v) =
     (case match0 h pmsRe v of
        (Some m, h1) \<Rightarrow> (this\<lparr>pms := Some m\<rparr>, h1)
      | (None, h1) \<Rightarrow>
     (case match0 h1 rgbRe v of
        (Some m, h2) \<Rightarrow>
          (this\<lparr>rgb := Some (map (\<lambda>v. parseInt v None) (splitCommaSpace m))\<rparr>, h2)
      | (None, h2) \<Rightarrow>
     (case match0 h2 hexRe v of
        (Some m, h3) \<Rightarrow> (this\<lparr>hex := Some (parseInt m (Some 16))\<rparr>, h3)
      | (None, h3) \<Rightarrow>
     (case match0 h3 sameAsRe v of
        (Some m, h4) \<Rightarrow> (this\<lparr>sameAs := Some m\<rparr>, h4)
      | (None, h4) \<Rightarrow> (this, h4)))))"

definition ColorInfo_new ::
    "store \<Rightarrow> string option \<Rightarrow> string option list \<Rightarrow> (error + ColorInfo) \<times> store" where
  "ColorInfo_new h name0 vals =
     (case name0 of
        None \<Rightarrow> (Inl (newInvalidColorParametersError None name0 vals), h)
      | Some n \<Rightarrow>
          if n = [] then (Inl (newInvalidColorParametersError None name0 vals), h)
          else (case foldl scanValue
                       (\<lparr>name = n, pms = None, rgb = None, hex = None, sameAs = None\<rparr>, h) vals of
                  (this, h') \<Rightarrow>
                    if \<not> isValid this
                    then (Inl (newInvalidColorParametersError
                                 (Some (''Either an RGB or HEX color value must be provided. ''
                                        @ stringifyNameValues name0 vals))
                                 name0 vals), h')
                    else (Inr this, h')))"

definition cssName :: "ColorInfo \<Rightarrow> string" where
  "cssName this =
     toLowerCase
       (''--'' @ concat (map (\<lambda>c. if c = CHR ''%'' then ''-percent'' else [c])
                            (map (\<lambda>c. if isWhiteSpace c then CHR ''-'' else c) (name this))))"

text \<open>\<open>toString(format = "hex")\<close>; \<open>None\<close> is the omitted argument. The type of the
  parameter admits the two formats only, the body also handles any other string. Before it
  throws, the method prints the record with \<open>console.error\<close>; the result below is the
  value returned or the error thrown.\<close>

definition toString :: "ColorInfo \<Rightarrow> string option \<Rightarrow> error + string" where
  "toString this format0 =
     (let format = (case format0 of None \<Rightarrow> ''hex'' | Some f \<Rightarrow> f)
      in if hex this \<noteq> None \<and> (format = ''hex'' \<or> (format = ''rgb'' \<and> rgb this = None))
         then Inr (cssName this @ '': #'' @ numberToString 16 (the (hex this)) @ '';'')
         else if rgb this \<noteq> None \<and> (format = ''rgb'' \<or> (format = ''hex'' \<and> hex this = None))
         then Inr (cssName this @ '': rgb(''
                   @ join '','' (map (numberToString 10) (the (rgb this))) @ '');'')
         else Inl (TypeError (''format must be either '' @ [CHR 0x22] @ ''hex'' @ [CHR 0x22]
                              @ '' or '' @ [CHR 0x22] @ ''rgb'' @ [CHR 0x22]
                              @ ''. Instead got '' @ format)))"

section \<open>Tables of the style guide\<close>

text \<open>A table is the list of its rows in document order, a row the list of its child
  elements. An element is a \<open>td\<close> or some other element (a \<open>th\<close>) with its
  \<open>textContent\<close>, which the DOM types as \<open>string | null\<close>. Tables nested in cells are
  outside the model.\<close>

datatype cell = Td "string option" | Th "string option"

fun textContent :: "cell \<Rightarrow> string option" where
  "textContent (Td t) = t"
| "textContent (Th t) = t"

fun isTd :: "cell \<Rightarrow> bool" where
  "isTd (Td t) = True"
| "isTd (Th t) = False"

type_synonym row = "cell list"
type_synonym table = "row list"

text \<open>\<open>table.querySelectorAll("td:nth-child(i)")\<close>: in every row, the child number
  \<open>i\<close> (counted from 1) when it is a \<open>td\<close>.\<close>

definition tdNthChild :: "table \<Rightarrow> nat \<Rightarrow> cell list" where
  "tdNthChild table i =
     concat (map (\<lambda>row. if 0 < i \<and> i \<le> length row \<and> isTd (row ! (i - 1))
                         then [row ! (i - 1)] else []) table)"

subsection \<open>Color tables\<close>

text \<open>The local \<open>textContents\<close> of \<open>getColorInfoColumn\<close>: the entries of the selected
  cells other than entry 1 whose text is not null, each text trimmed at its end.\<close>

definition textContentsOf :: "cell list \<Rightarrow> string list" where
  "textContentsOf cells =
     map (\<lambda>(i, cell). trimEnd (the (textContent cell)))
         (filter (\<lambda>(i, cell). i \<noteq> 1 \<and> textContent cell \<noteq> None) (enumerate 0 cells))"

definition getColorInfoColumn ::
    "store \<Rightarrow> table \<Rightarrow> nat \<Rightarrow> (error + ColorInfo option) \<times> store" where
  "getColorInfoColumn h table i =
     (let cells = tdNthChild table i
      in if cells = [] then (Inr None, h)
         else (let textContents = textContentsOf cells
               in case ColorInfo_new h (case textContents of [] \<Rightarrow> None | t # ts \<Rightarrow> Some t)
                                       (map Some (drop 1 textContents)) of
                    (Inl e, h') \<Rightarrow> (Inl e, h')
                  | (Inr colorInfo, h') \<Rightarrow> (Inr (Some colorInfo), h')))"

text \<open>What a run of the generator \<open>getColorInfo\<close> does, in order: the records it yields
  and the errors it prints with \<open>console.error\<close>. The run ends normally (\<open>None\<close>) or
  with the error it rethrows. The loop takes the call of its \<open>try\<close> block as the
  parameter \<open>column\<close>, so that the handler is defined for every error.\<close>

datatype color_event = YieldColor ColorInfo | ConsoleError error

function getColorInfoLoop ::
    "(store \<Rightarrow> nat \<Rightarrow> (error + ColorInfo option) \<times> store) \<Rightarrow> store \<Rightarrow> nat
      \<Rightarrow> (color_event list \<times> error option) \<times> store" where
  "getColorInfoLoop column h i =
     (if i \<le> 3
      then (case column h i of
              (Inr None, h1) \<Rightarrow> getColorInfoLoop column h1 (i + 1)
            | (Inr (Some colorInfo), h1) \<Rightarrow>
                (case getColorInfoLoop column h1 (i + 1) of
                   ((events, r), h2) \<Rightarrow> ((YieldColor colorInfo # events, r), h2))
            | (Inl e, h1) \<Rightarrow>
                if isInvalidColorParametersError e
                then (case getColorInfoLoop column h1 (i + 1) of
                        ((events, r), h2) \<Rightarrow> ((ConsoleError e # events, r), h2))
                else (([], Some e), h1))
      else (([], None), h))"
  by pat_completeness auto
termination
  by (relation "measure (\<lambda>(column, h, i). 4 - i)") auto

declare getColorInfoLoop.simps [simp del]

definition getColorInfo :: "store \<Rightarrow> table \<Rightarrow> (color_event list \<times> error option) \<times> store" where
  "getColorInfo h table = getColorInfoLoop (\<lambda>h' i. getColorInfoColumn h' table i) h 1"

subsection \<open>The table of scale increments\<close>

record Scale =
  base :: string
  incrementName :: string
  pixelSize :: string
  remSize :: string

datatype scale_event = YieldScale Scale | StderrWrite string

text \<open>\<open>/Base-?\d+/g\<close>, a new object at every call of the generator.\<close>

definition incrementNameRe :: "nat \<Rightarrow> regexp" where
  "incrementNameRe a =
     \<lparr>re_atoms = map (\<lambda>c. (Lit c, Once)) ''Base'' @ [(Lit CHR ''-'', Optional), (Digit, OneOrMore)],
      re_ignoreCase = False, re_addr = a\<rparr>"

definition incrementNameRe_source :: string where
  "incrementNameRe_source = ''Base-?'' @ [CHR 0x5C] @ ''d+''"

definition rowCells :: "row \<Rightarrow> string list" where
  "rowCells row =
     map the (filter (\<lambda>text. text \<noteq> None)
       (map (\<lambda>cell. case textContent cell of
                       None \<Rightarrow> None
                     | Some t \<Rightarrow> if t = [] then None else Some t)
            (filter isTd row)))"

definition tooFewMessage :: "nat \<Rightarrow> string list \<Rightarrow> string" where
  "tooFewMessage i cells =
     [CHR 0x0A] @ ''Row '' @ natToString 10 i @ '' should have 4 elements but only has ''
     @ natToString 10 (length cells) @ ''.'' @ [CHR 0x0A] @ stringifyStrings cells @ [CHR 0x0A]"

definition emptyElementMessage :: "nat \<Rightarrow> string list \<Rightarrow> string" where
  "emptyElementMessage i cells =
     [CHR 0x0A] @ ''Row '' @ natToString 10 i @ '' contains an empty element.'' @ [CHR 0x0A]
     @ stringifyStrings cells @ [CHR 0x0A]"

definition invalidNameMessage :: "nat \<Rightarrow> string \<Rightarrow> string" where
  "invalidNameMessage i incrementName0 =
     ''Row '' @ natToString 10 i @ '' has an invalid increment name: '' @ incrementName0
     @ ''. Expected to match '' @ incrementNameRe_source @ [CHR 0x0A]"

definition emit :: "'e \<Rightarrow> 'e list \<times> store \<Rightarrow> 'e list \<times> store" where
  "emit e r = (case r of (events, h) \<Rightarrow> (e # events, h))"

text \<open>The loop over \<open>rows.entries()\<close>, from entry \<open>i\<close> on; \<open>re\<close> is the pattern object
  of this run.\<close>

fun scaleRows :: "regexp \<Rightarrow> store \<Rightarrow> nat \<Rightarrow> row list \<Rightarrow> scale_event list \<times> store" where
  "scaleRows re h i [] = ([], h)"
| "scaleRows re h i (row # rows) =
     (if i = 0 then scaleRows re h (Suc i) rows
      else (let cells = rowCells row
            in if length cells < 4
               then emit (StderrWrite (tooFewMessage i cells)) (scaleRows re h (Suc i) rows)
               else if list_ex (\<lambda>text. text = []) cells
               then emit (StderrWrite (emptyElementMessage i cells)) (scaleRows re h (Suc i) rows)
               else (case test h re (cells ! 1) of
                       (False, h1) \<Rightarrow>
                         emit (StderrWrite (invalidNameMessage i (cells ! 1)))
                              (scaleRows re h1 (Suc i) rows)
                     | (True, h1) \<Rightarrow>
                         emit (YieldScale \<lparr>base = cells ! 0, incrementName = cells ! 1,
                                            pixelSize = cells ! 2, remSize = cells ! 3\<rparr>)
                              (scaleRows re h1 (Suc i) rows))))"

definition enumerateScaleIncrements :: "store \<Rightarrow> table \<Rightarrow> scale_event list \<times> store" where
  "enumerateScaleIncrements h table = scaleRows (incrementNameRe (length h)) (h @ [0]) 0 table"

section \<open>Notions of the specification\<close>

text \<open>A value resolves the color when the scan reads an RGB triple or a hex value from
  it: it shows no Pantone code, and it shows an RGB triple or a hex value.\<close>

definition resolvesColor :: "string \<Rightarrow> bool" where
  "resolvesColor v =
     (firstMatch pmsRe v = None \<and> (firstMatch rgbRe v \<noteq> None \<or> firstMatch hexRe v \<noteq> None))"

definition isHexDigit :: "char \<Rightarrow> bool" where
  "isHexDigit c =
     ((48 \<le> code c \<and> code c \<le> 57) \<or> (65 \<le> code c \<and> code c \<le> 70)
      \<or> (97 \<le> code c \<and> code c \<le> 102))"

text \<open>The runs of six consecutive hexadecimal characters of a string, from left to right.\<close>

definition hexRuns :: "string \<Rightarrow> string list" where
  "hexRuns v =
     filter (\<lambda>m. list_all isHexDigit m) (map (\<lambda>i. take 6 (drop i v)) [0 ..< length v - 5])"


section \<open>Rules for evaluating the model on concrete inputs\<close>

lemma natToString_small: "n < radix \<or> radix < 2 \<Longrightarrow> natToString radix n = [digitChar n]"
  by (simp add: natToString.simps)

lemma natToString_big:
  "\<not> (n < radix \<or> radix < 2) \<Longrightarrow>
   natToString radix n = natToString radix (n div radix) @ [digitChar (n mod radix)]"
  by (subst natToString.simps) simp

lemma matchHere_Exactly_numeral:
  "matchHere ic ((cls, Exactly (numeral k)) # as) [] = None"
  "matchHere ic ((cls, Exactly (numeral k)) # as) (c # s) =
     (if charMatch ic cls c
      then map_option Suc (matchHere ic ((cls, Exactly (pred_numeral k)) # as) s) else None)"
  by (simp_all add: numeral_eq_Suc)

lemmas char_eval = code_def isWhiteSpace_def isLineTerminator_def isDigit_def toLowerChar_def
  canonicalize_def char_of_def bit_Suc_0_iff

lemmas number_eval = numberToString_def natToString_small natToString_big digitChar_def

lemmas regexp_eval = firstMatch_def match0_def charMatch_def pmsRe_def rgbRe_def hexRe_def
  sameAsRe_def matchHere_Exactly_numeral

lemmas parse_eval = parseInt_def isRadixDigit_def digitValue_def digitsValue_def

lemma re_addrs: "re_addr pmsRe = 0" "re_addr rgbRe = 1" "re_addr hexRe = 2" "re_addr sameAsRe = 3"
  by (simp_all add: pmsRe_def rgbRe_def hexRe_def sameAsRe_def)

section \<open>The scan of the values\<close>

lemma scanValue_isValid:
  "isValid (fst (scanValue (c, h) x)) \<longleftrightarrow> isValid c \<or> (\<exists>v. x = Some v \<and> resolvesColor v)"
  by (cases x) (auto simp: match0_def isValid_def resolvesColor_def split: option.splits)

lemma foldl_scanValue_isValid:
  "isValid (fst (foldl scanValue (c, h) vals))
   \<longleftrightarrow> isValid c \<or> (\<exists>v. Some v \<in> set vals \<and> resolvesColor v)"
proof (induction vals arbitrary: c h)
  case Nil
  show ?case by simp
next
  case (Cons x xs)
  obtain c' h' where step: "scanValue (c, h) x = (c', h')"
    by (cases "scanValue (c, h) x")
  have "isValid c' \<longleftrightarrow> isValid c \<or> (\<exists>v. x = Some v \<and> resolvesColor v)"
    using scanValue_isValid [of c h x] step by simp
  with Cons.IH [of c' h'] step show ?case
    by auto
qed

text \<open>
  Claim C1. The constructor fails, with an \<open>InvalidColorParametersError\<close>, exactly when
  the name is missing or empty or no value resolves the color (no value is read as an RGB
  triple or as a hex value); it throws no other error, and every record it returns has
  \<open>rgb\<close> or \<open>hex\<close> set.
\<close>

theorem ColorInfo_new_fails_iff:
  "((\<exists>m. fst (ColorInfo_new h nm vals) = Inl (InvalidColorParametersError m))
      \<longleftrightarrow> nm = None \<or> nm = Some [] \<or> \<not> (\<exists>v. Some v \<in> set vals \<and> resolvesColor v))
   \<and> (\<forall>e. fst (ColorInfo_new h nm vals) = Inl e \<longrightarrow> isInvalidColorParametersError e)
   \<and> (\<forall>c. fst (ColorInfo_new h nm vals) = Inr c \<longrightarrow> isValid c)"
proof (cases nm)
  case None
  then show ?thesis
    by (simp add: ColorInfo_new_def newInvalidColorParametersError_def)
next
  case (Some n)
  show ?thesis
  proof (cases "n = []")
    case True
    with Some show ?thesis
      by (simp add: ColorInfo_new_def newInvalidColorParametersError_def)
  next
    case False
    let ?c0 = "\<lparr>name = n, pms = None, rgb = None, hex = None, sameAs = None\<rparr>"
    obtain c' h' where scan: "foldl scanValue (?c0, h) vals = (c', h')"
      by (cases "foldl scanValue (?c0, h) vals")
    have "isValid c' \<longleftrightarrow> (\<exists>v. Some v \<in> set vals \<and> resolvesColor v)"
      using foldl_scanValue_isValid [of ?c0 h vals] scan by (simp add: isValid_def)
    with Some False scan show ?thesis
      by (simp add: ColorInfo_new_def newInvalidColorParametersError_def)
  qed
qed

theorem ColorInfo_new_fails_iff_witness:
  "fst (ColorInfo_new [0, 0, 0, 0] (Some ''Red'') [None, Some ''FF0000''])
     = Inr \<lparr>name = ''Red'', pms = None, rgb = None, hex = Some (Num 0xFF0000), sameAs = None\<rparr>
   \<and> isValid \<lparr>name = ''Red'', pms = None, rgb = None, hex = Some (Num 0xFF0000), sameAs = None\<rparr>
   \<and> \<not> resolvesColor ''junk''
   \<and> (\<exists>m. fst (ColorInfo_new [0, 0, 0, 0] (Some ''Red'') [None, Some ''junk''])
            = Inl (InvalidColorParametersError m))"
proof -
  let ?c = "\<lparr>name = ''Red'', pms = None, rgb = None, hex = Some (Num 0xFF0000), sameAs = None\<rparr>"
  have ok: "fst (ColorInfo_new [0, 0, 0, 0] (Some ''Red'') [None, Some ''FF0000'']) = Inr ?c"
    by (simp add: ColorInfo_new_def isValid_def regexp_eval char_eval parse_eval)
  have valid: "isValid ?c"
    using ColorInfo_new_fails_iff [of "[0, 0, 0, 0]" "Some ''Red''" "[None, Some ''FF0000'']"] ok
    by simp
  have junk: "\<not> resolvesColor ''junk''"
    by (simp add: resolvesColor_def regexp_eval char_eval)
  have "\<exists>m. fst (ColorInfo_new [0, 0, 0, 0] (Some ''Red'') [None, Some ''junk''])
              = Inl (InvalidColorParametersError m)"
    using ColorInfo_new_fails_iff [of "[0, 0, 0, 0]" "Some ''Red''" "[None, Some ''junk'']"] junk
    by simp
  with ok valid junk show ?thesis
    by simp
qed

text \<open>The record that the scan builds does not depend on the \<open>lastIndex\<close> values it
  finds in the store.\<close>

lemma scanValue_store_indep: "fst (scanValue (c, h) x) = fst (scanValue (c, h') x)"
  by (cases x) (simp_all add: match0_def split: option.splits)

lemma foldl_scanValue_store_indep:
  "fst (foldl scanValue (c, h) vals) = fst (foldl scanValue (c, h') vals)"
proof (induction vals arbitrary: c h h')
  case Nil
  show ?case by simp
next
  case (Cons x xs)
  obtain c1 h1 where s1: "scanValue (c, h) x = (c1, h1)"
    by (cases "scanValue (c, h) x")
  obtain c2 h2 where s2: "scanValue (c, h') x = (c2, h2)"
    by (cases "scanValue (c, h') x")
  have "c1 = c2"
    using scanValue_store_indep [of c h x h'] s1 s2 by simp
  with Cons.IH [of c1 h1 h2] s1 s2 show ?case
    by simp
qed

lemma foldl_scanValue_discard:
  assumes "firstMatch pmsRe v = None" "firstMatch rgbRe v = None" "firstMatch hexRe v = None"
    "firstMatch sameAsRe v = None"
  shows "fst (foldl scanValue (c, h) (xs @ Some v # ys)) = fst (foldl scanValue (c, h) (xs @ ys))"
proof -
  obtain c1 h1 where pre: "foldl scanValue (c, h) xs = (c1, h1)"
    by (cases "foldl scanValue (c, h) xs")
  have "scanValue (c1, h1) (Some v) = (c1, h1[0 := 0, 1 := 0, 2 := 0, 3 := 0])"
    using assms by (simp add: match0_def re_addrs)
  with pre show ?thesis
    using foldl_scanValue_store_indep [of c1 "h1[0 := 0, 1 := 0, 2 := 0, 3 := 0]" ys h1]
    by simp
qed

text \<open>
  Claim C2. A value is tested against the Pantone, RGB, hex and alias patterns in this
  order. The first pattern that matches sets its one field and ends the work on the value:
  the other fields stay as they were, and the patterns after it are not used (their
  \<open>lastIndex\<close> cells are not written). A value that matches none of the four leaves the
  record as it was, and the scan of the whole list ends as if the value were not in it.
\<close>

theorem scanValue_first_match_wins:
  "(\<forall>m. firstMatch pmsRe v = Some m \<longrightarrow>
        scanValue (c, h) (Some v) = (c\<lparr>pms := Some m\<rparr>, h[0 := 0]))
   \<and> (\<forall>m. firstMatch pmsRe v = None \<and> firstMatch rgbRe v = Some m \<longrightarrow>
        scanValue (c, h) (Some v)
        = (c\<lparr>rgb := Some (map (\<lambda>p. parseInt p None) (splitCommaSpace m))\<rparr>, h[0 := 0, 1 := 0]))
   \<and> (\<forall>m. firstMatch pmsRe v = None \<and> firstMatch rgbRe v = None \<and> firstMatch hexRe v = Some m \<longrightarrow>
        scanValue (c, h) (Some v)
        = (c\<lparr>hex := Some (parseInt m (Some 16))\<rparr>, h[0 := 0, 1 := 0, 2 := 0]))
   \<and> (\<forall>m. firstMatch pmsRe v = None \<and> firstMatch rgbRe v = None \<and> firstMatch hexRe v = None
          \<and> firstMatch sameAsRe v = Some m \<longrightarrow>
        scanValue (c, h) (Some v) = (c\<lparr>sameAs := Some m\<rparr>, h[0 := 0, 1 := 0, 2 := 0, 3 := 0]))
   \<and> (firstMatch pmsRe v = None \<and> firstMatch rgbRe v = None \<and> firstMatch hexRe v = None
          \<and> firstMatch sameAsRe v = None \<longrightarrow>
        scanValue (c, h) (Some v) = (c, h[0 := 0, 1 := 0, 2 := 0, 3 := 0])
        \<and> (\<forall>xs ys. fst (foldl scanValue (c, h) (xs @ Some v # ys))
                     = fst (foldl scanValue (c, h) (xs @ ys))))"
  using foldl_scanValue_discard [of v c h]
  by (simp add: match0_def re_addrs)

theorem scanValue_first_match_wins_witness:
  "scanValue (\<lparr>name = ''Red'', pms = None, rgb = None, hex = None, sameAs = None\<rparr>, [5, 6, 7, 8])
       (Some ''PMS 186 100% (255, 0, 0 or FF0000)'')
     = (\<lparr>name = ''Red'', pms = Some ''186 100%'', rgb = None, hex = None, sameAs = None\<rparr>, [0, 6, 7, 8])
   \<and> scanValue (\<lparr>name = ''Red'', pms = None, rgb = None, hex = None, sameAs = None\<rparr>, [5, 6, 7, 8])
       (Some ''255, 0, 0 same as FF0000'')
     = (\<lparr>name = ''Red'', pms = None, rgb = Some [Num 255, Num 0, Num 0], hex = None, sameAs = None\<rparr>,
        [0, 0, 7, 8])
   \<and> scanValue (\<lparr>name = ''Red'', pms = None, rgb = None, hex = None, sameAs = None\<rparr>, [5, 6, 7, 8])
       (Some ''Same as FF0000'')
     = (\<lparr>name = ''Red'', pms = None, rgb = None, hex = Some (Num 0xFF0000), sameAs = None\<rparr>,
        [0, 0, 0, 8])
   \<and> scanValue (\<lparr>name = ''Red'', pms = None, rgb = None, hex = None, sameAs = None\<rparr>, [5, 6, 7, 8])
       (Some ''(same as Crimson)'')
     = (\<lparr>name = ''Red'', pms = None, rgb = None, hex = None, sameAs = Some ''same as Crimson)''\<rparr>,
        [0, 0, 0, 0])
   \<and> scanValue (\<lparr>name = ''Red'', pms = None, rgb = None, hex = None, sameAs = None\<rparr>, [5, 6, 7, 8])
       (Some ''junk'')
     = (\<lparr>name = ''Red'', pms = None, rgb = None, hex = None, sameAs = None\<rparr>, [0, 0, 0, 0])"
proof -
  let ?c = "\<lparr>name = ''Red'', pms = None, rgb = None, hex = None, sameAs = None\<rparr>"
  let ?h = "[5, 6, 7, 8] :: nat list"
  have p1: "firstMatch pmsRe ''PMS 186 100% (255, 0, 0 or FF0000)'' = Some ''186 100%''"
    by (simp add: regexp_eval char_eval)
  have p2: "firstMatch pmsRe ''255, 0, 0 same as FF0000'' = None"
    by (simp add: regexp_eval char_eval)
  have r2: "firstMatch rgbRe ''255, 0, 0 same as FF0000'' = Some ''255, 0, 0''"
    by (simp add: regexp_eval char_eval)
  have v2: "map (\<lambda>p. parseInt p None) (splitCommaSpace ''255, 0, 0'') = [Num 255, Num 0, Num 0]"
    by (simp add: parse_eval char_eval)
  have p3: "firstMatch pmsRe ''Same as FF0000'' = None"
    by (simp add: regexp_eval char_eval)
  have r3: "firstMatch rgbRe ''Same as FF0000'' = None"
    by (simp add: regexp_eval char_eval)
  have x3: "firstMatch hexRe ''Same as FF0000'' = Some ''FF0000''"
    by (simp add: regexp_eval char_eval)
  have v3: "parseInt ''FF0000'' (Some 16) = Num 0xFF0000"
    by (simp add: parse_eval char_eval)
  have p4: "firstMatch pmsRe ''(same as Crimson)'' = None"
    by (simp add: regexp_eval char_eval)
  have r4: "firstMatch rgbRe ''(same as Crimson)'' = None"
    by (simp add: regexp_eval char_eval)
  have x4: "firstMatch hexRe ''(same as Crimson)'' = None"
    by (simp add: regexp_eval char_eval)
  have s4: "firstMatch sameAsRe ''(same as Crimson)'' = Some ''same as Crimson)''"
    by (simp add: regexp_eval char_eval)
  have p5: "firstMatch pmsRe ''junk'' = None"
    by (simp add: regexp_eval char_eval)
  have r5: "firstMatch rgbRe ''junk'' = None"
    by (simp add: regexp_eval char_eval)
  have x5: "firstMatch hexRe ''junk'' = None"
    by (simp add: regexp_eval char_eval)
  have s5: "firstMatch sameAsRe ''junk'' = None"
    by (simp add: regexp_eval char_eval)
  show ?thesis
    using scanValue_first_match_wins [of "''PMS 186 100% (255, 0, 0 or FF0000)''" ?c ?h]
      scanValue_first_match_wins [of "''255, 0, 0 same as FF0000''" ?c ?h]
      scanValue_first_match_wins [of "''Same as FF0000''" ?c ?h]
      scanValue_first_match_wins [of "''(same as Crimson)''" ?c ?h]
      scanValue_first_match_wins [of "''junk''" ?c ?h]
      p1 p2 r2 v2 p3 r3 x3 v3 p4 r4 x4 s4 p5 r5 x5 s5
    by simp
qed


section \<open>Rendering a color\<close>

lemma cssName_accent: "name c = ''Accent 50%'' \<Longrightarrow> cssName c = ''--accent-50-percent''"
  by (simp add: cssName_def toLowerCase_def char_eval)

text \<open>
  Claim C8. For a record named \<open>Accent 50%\<close> whose \<open>hex\<close> is \<open>0xAABBCC\<close>, the CSS
  name is \<open>--accent-50-percent\<close> and the hex rendering, asked for or by default, is
  \<open>--accent-50-percent: #aabbcc;\<close>: lower case, no \<open>0x\<close>. The digits are not padded
  to a width: \<open>0x00FF00\<close> renders as \<open>#ff00\<close>.
\<close>

theorem toString_accent_aabbcc:
  "name c = ''Accent 50%'' \<Longrightarrow>
     (hex c = Some (Num 0xAABBCC) \<longrightarrow>
        cssName c = ''--accent-50-percent''
        \<and> toString c (Some ''hex'') = Inr ''--accent-50-percent: #aabbcc;''
        \<and> toString c None = Inr ''--accent-50-percent: #aabbcc;'')
     \<and> (hex c = Some (Num 0x00FF00) \<longrightarrow>
        toString c (Some ''hex'') = Inr ''--accent-50-percent: #ff00;'')"
  by (simp add: toString_def cssName_accent number_eval)

theorem toString_accent_aabbcc_witness:
  "name \<lparr>name = ''Accent 50%'', pms = None, rgb = None, hex = Some (Num 0xAABBCC), sameAs = None\<rparr>
     = ''Accent 50%''
   \<and> hex \<lparr>name = ''Accent 50%'', pms = None, rgb = None, hex = Some (Num 0xAABBCC), sameAs = None\<rparr>
     = Some (Num 0xAABBCC)
   \<and> cssName \<lparr>name = ''Accent 50%'', pms = None, rgb = None, hex = Some (Num 0xAABBCC), sameAs = None\<rparr>
     = ''--accent-50-percent''
   \<and> toString \<lparr>name = ''Accent 50%'', pms = None, rgb = None, hex = Some (Num 0xAABBCC), sameAs = None\<rparr>
        (Some ''hex'') = Inr ''--accent-50-percent: #aabbcc;''
   \<and> hex \<lparr>name = ''Accent 50%'', pms = None, rgb = None, hex = Some (Num 0x00FF00), sameAs = None\<rparr>
     = Some (Num 0x00FF00)
   \<and> toString \<lparr>name = ''Accent 50%'', pms = None, rgb = None, hex = Some (Num 0x00FF00), sameAs = None\<rparr>
        (Some ''hex'') = Inr ''--accent-50-percent: #ff00;''"
  using toString_accent_aabbcc
      [of "\<lparr>name = ''Accent 50%'', pms = None, rgb = None, hex = Some (Num 0xAABBCC), sameAs = None\<rparr>"]
    toString_accent_aabbcc
      [of "\<lparr>name = ''Accent 50%'', pms = None, rgb = None, hex = Some (Num 0x00FF00), sameAs = None\<rparr>"]
  by simp

text \<open>
  Claim C4, as the claim states it, fails: asked for \<open>rgb\<close>, a record that has \<open>hex\<close>
  but no \<open>rgb\<close> is rendered in hex.
\<close>

theorem toString_rgb_without_rgb_counterexample:
  "rgb \<lparr>name = ''Red'', pms = None, rgb = None, hex = Some (Num 0xFF0000), sameAs = None\<rparr> = None
   \<and> toString \<lparr>name = ''Red'', pms = None, rgb = None, hex = Some (Num 0xFF0000), sameAs = None\<rparr>
        (Some ''rgb'') = Inr ''--red: #ff0000;''"
  by (simp add: toString_def cssName_def toLowerCase_def char_eval number_eval)

text \<open>
  Claim C4, amended. \<open>toString\<close> fails, with a \<open>TypeError\<close>, exactly when the format
  is neither \<open>hex\<close> nor \<open>rgb\<close> or the record has neither \<open>hex\<close> nor \<open>rgb\<close>. When
  only the field of the requested format is absent, the record is rendered in the other
  format.
\<close>

theorem toString_fails_iff:
  "((\<exists>m. toString c fmt = Inl (TypeError m)) \<longleftrightarrow>
      (fmt \<noteq> None \<and> fmt \<noteq> Some ''hex'' \<and> fmt \<noteq> Some ''rgb'') \<or> (hex c = None \<and> rgb c = None))
   \<and> (\<forall>e. toString c fmt = Inl e \<longrightarrow> (\<exists>m. e = TypeError m))
   \<and> (hex c \<noteq> None \<and> rgb c = None \<longrightarrow> toString c (Some ''rgb'') = toString c (Some ''hex''))
   \<and> (rgb c \<noteq> None \<and> hex c = None \<longrightarrow> toString c (Some ''hex'') = toString c (Some ''rgb''))"
  by (cases fmt) (auto simp: toString_def Let_def)

theorem toString_fails_iff_witness:
  "(\<exists>m. toString \<lparr>name = ''Red'', pms = None, rgb = None, hex = None, sameAs = None\<rparr> (Some ''hex'')
          = Inl (TypeError m))
   \<and> (\<exists>m. toString \<lparr>name = ''Red'', pms = None, rgb = None, hex = Some (Num 0xFF0000), sameAs = None\<rparr>
          (Some ''cmyk'') = Inl (TypeError m))
   \<and> toString \<lparr>name = ''Red'', pms = None, rgb = None, hex = Some (Num 0xFF0000), sameAs = None\<rparr>
        (Some ''rgb'')
      = toString \<lparr>name = ''Red'', pms = None, rgb = None, hex = Some (Num 0xFF0000), sameAs = None\<rparr>
        (Some ''hex'')
   \<and> toString \<lparr>name = ''Red'', pms = None, rgb = Some [Num 255, Num 0, Num 0], hex = None,
                 sameAs = None\<rparr> (Some ''hex'')
      = toString \<lparr>name = ''Red'', pms = None, rgb = Some [Num 255, Num 0, Num 0], hex = None,
                   sameAs = None\<rparr> (Some ''rgb'')"
  using toString_fails_iff
      [of "\<lparr>name = ''Red'', pms = None, rgb = None, hex = None, sameAs = None\<rparr>" "Some ''hex''"]
    toString_fails_iff
      [of "\<lparr>name = ''Red'', pms = None, rgb = None, hex = Some (Num 0xFF0000), sameAs = None\<rparr>"
          "Some ''cmyk''"]
    toString_fails_iff
      [of "\<lparr>name = ''Red'', pms = None, rgb = Some [Num 255, Num 0, Num 0], hex = None,
            sameAs = None\<rparr>" "Some ''hex''"]
  by simp

section \<open>The hex pattern\<close>

lemma code_less: "code c < 256"
  by (simp add: code_def)

lemma code_char_of: "n < 256 \<Longrightarrow> code (char_of n) = n"
  by (simp add: code_def)

lemma code_toLowerChar:
  "code (toLowerChar c) =
     (if (65 \<le> code c \<and> code c \<le> 90) \<or> (192 \<le> code c \<and> code c \<le> 222 \<and> code c \<noteq> 215)
      then code c + 32 else code c)"
proof (cases "(65 \<le> code c \<and> code c \<le> 90) \<or> (192 \<le> code c \<and> code c \<le> 222 \<and> code c \<noteq> 215)")
  case True
  then have "code c + 32 < 256" by arith
  then have "code (char_of (code c + 32)) = code c + 32" by (rule code_char_of)
  with True show ?thesis by (simp only: toLowerChar_def if_True)
next
  case False
  then show ?thesis by (simp only: toLowerChar_def if_False)
qed

lemma code_canonicalize:
  "code (canonicalize c) =
     (if (97 \<le> code c \<and> code c \<le> 122) \<or> (224 \<le> code c \<and> code c \<le> 254 \<and> code c \<noteq> 247)
      then code c - 32 else code c)"
proof (cases "(97 \<le> code c \<and> code c \<le> 122) \<or> (224 \<le> code c \<and> code c \<le> 254 \<and> code c \<noteq> 247)")
  case True
  then have "code c - 32 < 256" by arith
  then have "code (char_of (code c - 32)) = code c - 32" by (rule code_char_of)
  with True show ?thesis by (simp only: canonicalize_def if_True)
next
  case False
  then show ?thesis by (simp only: canonicalize_def if_False)
qed

lemma code_char: "code CHR ''0'' = 48" "code CHR ''9'' = 57" "code CHR ''a'' = 97" "code CHR ''f'' = 102"
  by (simp_all add: code_def)

lemma hex_arith:
  fixes n :: nat
  shows "((48 \<le> n \<and> n \<le> 57 \<or> 97 \<le> n \<and> n \<le> 102)
     \<or> (48 \<le> (if (97 \<le> n \<and> n \<le> 122) \<or> (224 \<le> n \<and> n \<le> 254 \<and> n \<noteq> 247) then n - 32 else n)
          \<and> (if (97 \<le> n \<and> n \<le> 122) \<or> (224 \<le> n \<and> n \<le> 254 \<and> n \<noteq> 247) then n - 32 else n) \<le> 57
         \<or> 97 \<le> (if (97 \<le> n \<and> n \<le> 122) \<or> (224 \<le> n \<and> n \<le> 254 \<and> n \<noteq> 247) then n - 32 else n)
          \<and> (if (97 \<le> n \<and> n \<le> 122) \<or> (224 \<le> n \<and> n \<le> 254 \<and> n \<noteq> 247) then n - 32 else n) \<le> 102)
     \<or> (48 \<le> (if (65 \<le> n \<and> n \<le> 90) \<or> (192 \<le> n \<and> n \<le> 222 \<and> n \<noteq> 215) then n + 32 else n)
          \<and> (if (65 \<le> n \<and> n \<le> 90) \<or> (192 \<le> n \<and> n \<le> 222 \<and> n \<noteq> 215) then n + 32 else n) \<le> 57
         \<or> 97 \<le> (if (65 \<le> n \<and> n \<le> 90) \<or> (192 \<le> n \<and> n \<le> 222 \<and> n \<noteq> 215) then n + 32 else n)
          \<and> (if (65 \<le> n \<and> n \<le> 90) \<or> (192 \<le> n \<and> n \<le> 222 \<and> n \<noteq> 215) then n + 32 else n) \<le> 102))
    = ((48 \<le> n \<and> n \<le> 57) \<or> (65 \<le> n \<and> n \<le> 70) \<or> (97 \<le> n \<and> n \<le> 102))"
  by (simp split: if_splits) arith

lemma charMatch_hex:
  "charMatch True (Ranges [(CHR ''0'', CHR ''9''), (CHR ''a'', CHR ''f'')]) = isHexDigit"
proof
  fix c
  show "charMatch True (Ranges [(CHR ''0'', CHR ''9''), (CHR ''a'', CHR ''f'')]) c = isHexDigit c"
    unfolding charMatch_def isHexDigit_def baseMatch.simps list_ex_Cons_iff list_ex_Nil_iff
      case_prod_conv code_toLowerChar code_canonicalize code_char
    using hex_arith [of "code c"] by simp
qed

lemma matchHere_Exactly:
  "matchHere ic [(cls, Exactly k)] s =
     (if k \<le> length s \<and> list_all (charMatch ic cls) (take k s) then Some k else None)"
proof (induction k arbitrary: s)
  case 0
  show ?case by simp
next
  case (Suc k)
  show ?case
    by (cases s) (simp_all add: Suc.IH)
qed

lemma firstMatch_Cons:
  "firstMatch re (c # s) =
     (case matchHere (re_ignoreCase re) (re_atoms re) (c # s) of
        Some n \<Rightarrow> Some (take n (c # s))
      | None \<Rightarrow> firstMatch re s)"
  by (simp add: firstMatch_def option.map_comp comp_def case_prod_unfold split: option.splits)

lemma firstMatch_hexRe_Nil: "firstMatch hexRe [] = None"
  by (simp add: firstMatch_def hexRe_def matchHere_Exactly)

lemma firstMatch_hexRe_Cons:
  "firstMatch hexRe (c # s) =
     (if 6 \<le> length (c # s) \<and> list_all isHexDigit (take 6 (c # s)) then Some (take 6 (c # s))
      else firstMatch hexRe s)"
proof -
  have "matchHere (re_ignoreCase hexRe) (re_atoms hexRe) (c # s) =
          (if 6 \<le> length (c # s) \<and> list_all isHexDigit (take 6 (c # s)) then Some 6 else None)"
    unfolding hexRe_def by (simp only: regexp.simps matchHere_Exactly charMatch_hex)
  then show ?thesis
    by (simp add: firstMatch_Cons)
qed

lemma hexRuns_Nil: "hexRuns [] = []"
  by (simp add: hexRuns_def)

lemma hexRuns_Cons:
  "hexRuns (c # s) =
     (if 6 \<le> length (c # s) \<and> list_all isHexDigit (take 6 (c # s)) then [take 6 (c # s)] else [])
     @ hexRuns s"
proof (cases "5 \<le> length s")
  case True
  then have "length (c # s) - 5 = Suc (length s - 5)"
    by simp
  then have "[0 ..< length (c # s) - 5] = 0 # map Suc [0 ..< length s - 5]"
    by (simp only: upt_conv_Cons zero_less_Suc map_Suc_upt)
  then have "map (\<lambda>i. take 6 (drop i (c # s))) [0 ..< length (c # s) - 5]
             = take 6 (c # s) # map (\<lambda>i. take 6 (drop i s)) [0 ..< length s - 5]"
    by (simp add: comp_def)
  with True show ?thesis
    unfolding hexRuns_def by simp
next
  case False
  then show ?thesis
    by (simp add: hexRuns_def)
qed

lemma firstMatch_hexRe:
  "firstMatch hexRe v = (case hexRuns v of [] \<Rightarrow> None | m # ms \<Rightarrow> Some m)"
proof (induction v)
  case Nil
  show ?case by (simp add: firstMatch_hexRe_Nil hexRuns_Nil)
next
  case (Cons c s)
  show ?case
    by (simp only: firstMatch_hexRe_Cons hexRuns_Cons Cons.IH) simp
qed

lemma hexRuns_member: "m \<in> set (hexRuns v) \<Longrightarrow> length m = 6 \<and> list_all isHexDigit m"
  by (auto simp: hexRuns_def)

lemma isHexDigit_facts:
  assumes "isHexDigit c"
  shows "\<not> isWhiteSpace c" "c \<noteq> CHR ''+''" "c \<noteq> CHR ''-''" "c \<noteq> CHR ''x''" "c \<noteq> CHR ''X''"
    "isRadixDigit 16 c"
  using assms
  by (auto simp: isHexDigit_def isWhiteSpace_def isRadixDigit_def digitValue_def code_def)

lemma parseInt_hex_digits:
  assumes "m \<noteq> []" "list_all isHexDigit m"
  shows "parseInt m (Some 16) = Num (int (digitsValue 16 m))"
proof -
  obtain a r where m: "m = a # r"
    using assms(1) by (cases m) auto
  have a: "isHexDigit a" and r: "list_all isHexDigit r"
    using assms(2) m by simp_all
  have ws: "dropWhile isWhiteSpace m = m"
    using isHexDigit_facts(1) [OF a] m by simp
  have nopref: "take 2 m \<noteq> ''0x'' \<and> take 2 m \<noteq> ''0X''"
  proof (cases r)
    case Nil
    with m show ?thesis by simp
  next
    case (Cons b r')
    then have "isHexDigit b" using r by simp
    then have "b \<noteq> CHR ''x'' \<and> b \<noteq> CHR ''X''"
      using isHexDigit_facts(4,5) by blast
    with m Cons show ?thesis by simp
  qed
  have "\<forall>c\<in>set m. isRadixDigit 16 c"
    using assms(2) isHexDigit_facts(6) by (auto simp: list_all_iff)
  then have digits: "takeWhile (isRadixDigit 16) m = m"
    by simp
  have sign: "hd m \<noteq> CHR ''+'' \<and> hd m \<noteq> CHR ''-''"
    using isHexDigit_facts(2,3) [OF a] m by simp
  show ?thesis
    by (simp add: parseInt_def Let_def ws nopref digits sign assms(1))
qed


text \<open>
  Claim C6, as the claim states it, fails: the pattern is searched for inside the value, so
  the seven characters \<open>#FF0000\<close> are read as the hex value \<open>0xFF0000\<close>.
\<close>

theorem hex_value_inside_longer_text_counterexample:
  "length ''#FF0000'' \<noteq> 6
   \<and> \<not> list_all isHexDigit ''#FF0000''
   \<and> fst (scanValue (\<lparr>name = ''Red'', pms = None, rgb = None, hex = None, sameAs = None\<rparr>,
                     [0, 0, 0, 0]) (Some ''#FF0000''))
     = \<lparr>name = ''Red'', pms = None, rgb = None, hex = Some (Num 0xFF0000), sameAs = None\<rparr>"
  by (simp add: isHexDigit_def regexp_eval char_eval parse_eval)

text \<open>
  Claim C6, amended. A value is read as a hex value exactly when it shows no Pantone code
  and no RGB triple and holds six consecutive hexadecimal characters; \<open>hex\<close> is then the
  base 16 value of the leftmost such six characters, and only \<open>hex\<close> changes.
\<close>

theorem hex_value_from_leftmost_run:
  "(firstMatch pmsRe v = None \<and> firstMatch rgbRe v = None \<and> hexRuns v \<noteq> [] \<longrightarrow>
      fst (scanValue (c, h) (Some v)) = c\<lparr>hex := Some (Num (int (digitsValue 16 (hd (hexRuns v)))))\<rparr>)
   \<and> (\<not> (firstMatch pmsRe v = None \<and> firstMatch rgbRe v = None \<and> hexRuns v \<noteq> []) \<longrightarrow>
      hex (fst (scanValue (c, h) (Some v))) = hex c)"
proof (cases "hexRuns v")
  case Nil
  then have "firstMatch hexRe v = None"
    by (simp add: firstMatch_hexRe)
  with Nil show ?thesis
    by (simp add: match0_def split: option.splits)
next
  case (Cons m ms)
  then have "m \<in> set (hexRuns v)"
    by simp
  then have "m \<noteq> [] \<and> list_all isHexDigit m"
    using hexRuns_member [of m v] by auto
  then have parsed: "parseInt m (Some 16) = Num (int (digitsValue 16 m))"
    by (simp add: parseInt_hex_digits)
  have "firstMatch hexRe v = Some m"
    using Cons by (simp add: firstMatch_hexRe)
  with Cons parsed show ?thesis
    by (simp add: match0_def split: option.splits)
qed

theorem hex_value_from_leftmost_run_witness:
  "firstMatch pmsRe ''#FF0000 / #00FF00'' = None
   \<and> firstMatch rgbRe ''#FF0000 / #00FF00'' = None
   \<and> hexRuns ''#FF0000 / #00FF00'' = [''FF0000'', ''00FF00'']
   \<and> fst (scanValue (\<lparr>name = ''Red'', pms = None, rgb = None, hex = None, sameAs = None\<rparr>,
                     [0, 0, 0, 0]) (Some ''#FF0000 / #00FF00''))
     = \<lparr>name = ''Red'', pms = None, rgb = None, hex = Some (Num 0xFF0000), sameAs = None\<rparr>
   \<and> firstMatch pmsRe ''100 50% FF0000'' \<noteq> None
   \<and> hex (fst (scanValue (\<lparr>name = ''Red'', pms = None, rgb = None, hex = None, sameAs = None\<rparr>,
                          [0, 0, 0, 0]) (Some ''100 50% FF0000''))) = None"
proof -
  let ?c = "\<lparr>name = ''Red'', pms = None, rgb = None, hex = None, sameAs = None\<rparr>"
  have p: "firstMatch pmsRe ''#FF0000 / #00FF00'' = None"
    by (simp add: regexp_eval char_eval)
  have r: "firstMatch rgbRe ''#FF0000 / #00FF00'' = None"
    by (simp add: regexp_eval char_eval)
  have runs: "hexRuns ''#FF0000 / #00FF00'' = [''FF0000'', ''00FF00'']"
    by (simp add: hexRuns_def isHexDigit_def upt_rec char_eval)
  have v: "digitsValue 16 ''FF0000'' = 0xFF0000"
    by (simp add: parse_eval char_eval)
  have p': "firstMatch pmsRe ''100 50% FF0000'' \<noteq> None"
    by (simp add: regexp_eval char_eval)
  show ?thesis
    using hex_value_from_leftmost_run [of "''#FF0000 / #00FF00''" ?c "[0, 0, 0, 0]"]
      hex_value_from_leftmost_run [of "''100 50% FF0000''" ?c "[0, 0, 0, 0]"]
      p r runs v p'
    by simp
qed

section \<open>The columns of a color table\<close>

lemma textContents_from_2:
  "map (\<lambda>(i, cell). trimEnd (the (textContent cell)))
       (filter (\<lambda>(i, cell). i \<noteq> 1 \<and> textContent cell \<noteq> None)
               (enumerate (Suc (Suc k)) cells))
   = map trimEnd (List.map_filter textContent cells)"
  by (induction cells arbitrary: k) (auto simp: List.map_filter_def)

lemma textContentsOf_Cons:
  "textContent first = Some t \<Longrightarrow>
   textContentsOf (first # rest) = trimEnd t # map trimEnd (List.map_filter textContent (drop 1 rest))"
proof (cases rest)
  case Nil
  assume "textContent first = Some t"
  with Nil show ?thesis
    by (simp add: textContentsOf_def List.map_filter_def)
next
  case (Cons r rs)
  assume "textContent first = Some t"
  with Cons show ?thesis
    using textContents_from_2 [of 0 rs]
    by (simp add: textContentsOf_def)
qed

text \<open>
  Claim C5, as the claim states it, fails: the second selected cell of a column is not among
  the values, and the name is trimmed as the values are. Of the cells \<open>Red\<close> (with two
  trailing blanks), \<open>FF0000\<close> and \<open>junk\<close> the constructor receives the name \<open>Red\<close>
  and the one value \<open>junk\<close>, and fails; with the name and the values of the claim it
  would return a record.
\<close>

theorem getColorInfoColumn_skips_second_cell_counterexample:
  "tdNthChild [[Td (Some ''Red  '')], [Td (Some ''FF0000'')], [Td (Some ''junk'')]] 1
     = [Td (Some ''Red  ''), Td (Some ''FF0000''), Td (Some ''junk'')]
   \<and> textContentsOf [Td (Some ''Red  ''), Td (Some ''FF0000''), Td (Some ''junk'')] = [''Red'', ''junk'']
   \<and> isl (fst (getColorInfoColumn [0, 0, 0, 0]
                 [[Td (Some ''Red  '')], [Td (Some ''FF0000'')], [Td (Some ''junk'')]] 1))
   \<and> fst (ColorInfo_new [0, 0, 0, 0] (Some ''Red  '') [Some ''FF0000'', Some ''junk''])
     = Inr \<lparr>name = ''Red  '', pms = None, rgb = None, hex = Some (Num 0xFF0000), sameAs = None\<rparr>"
proof -
  have cells: "tdNthChild [[Td (Some ''Red  '')], [Td (Some ''FF0000'')], [Td (Some ''junk'')]] 1
     = [Td (Some ''Red  ''), Td (Some ''FF0000''), Td (Some ''junk'')]"
    by (simp add: tdNthChild_def)
  have texts: "textContentsOf [Td (Some ''Red  ''), Td (Some ''FF0000''), Td (Some ''junk'')]
     = [''Red'', ''junk'']"
    by (simp add: textContentsOf_def enumerate_eq_zip upt_rec trimEnd_def char_eval)
  have junk: "\<not> resolvesColor ''junk''"
    by (simp add: resolvesColor_def regexp_eval char_eval)
  have "isl (fst (ColorInfo_new [0, 0, 0, 0] (Some ''Red'') [Some ''junk'']))"
    by (simp add: ColorInfo_new_def isValid_def regexp_eval char_eval)
  then have fails: "isl (fst (getColorInfoColumn [0, 0, 0, 0]
                 [[Td (Some ''Red  '')], [Td (Some ''FF0000'')], [Td (Some ''junk'')]] 1))"
    unfolding getColorInfoColumn_def Let_def cells texts
    by (auto split: prod.splits sum.splits)
  have "fst (ColorInfo_new [0, 0, 0, 0] (Some ''Red  '') [Some ''FF0000'', Some ''junk''])
     = Inr \<lparr>name = ''Red  '', pms = None, rgb = None, hex = Some (Num 0xFF0000), sameAs = None\<rparr>"
    by (simp add: ColorInfo_new_def isValid_def regexp_eval char_eval parse_eval)
  with cells texts fails show ?thesis
    by simp
qed

text \<open>
  Claim C5, amended. When no cell is selected at the column position, no record is built.
  Otherwise the name is the text of the first selected cell, trimmed at its end, and the
  values are the texts of the selected cells from the third on (the second selected cell is
  skipped), nulls filtered out, each trimmed at its end.
\<close>

theorem getColorInfoColumn_name_and_values:
  "(tdNthChild table i = [] \<longrightarrow> getColorInfoColumn h table i = (Inr None, h))
   \<and> (\<forall>first rest t. tdNthChild table i = first # rest \<and> textContent first = Some t \<longrightarrow>
        getColorInfoColumn h table i
        = (case ColorInfo_new h (Some (trimEnd t))
                  (map (\<lambda>x. Some (trimEnd x)) (List.map_filter textContent (drop 1 rest))) of
             (Inl e, h') \<Rightarrow> (Inl e, h')
           | (Inr colorInfo, h') \<Rightarrow> (Inr (Some colorInfo), h')))"
  by (simp add: getColorInfoColumn_def textContentsOf_Cons comp_def)

theorem getColorInfoColumn_name_and_values_witness:
  "tdNthChild
        [[Td (Some ''Red  ''), Th (Some ''x'')],
         [Td (Some ''swatch'')],
         [Td (Some (''FF0000'' @ [CHR 0x09]))]] 2 = []
   \<and> getColorInfoColumn [0, 0, 0, 0]
        [[Td (Some ''Red  ''), Th (Some ''x'')],
         [Td (Some ''swatch'')],
         [Td (Some (''FF0000'' @ [CHR 0x09]))]] 2
      = (Inr None, [0, 0, 0, 0])
   \<and> tdNthChild
        [[Td (Some ''Red  ''), Th (Some ''x'')],
         [Td (Some ''swatch'')],
         [Td (Some (''FF0000'' @ [CHR 0x09]))]] 1
      = [Td (Some ''Red  ''), Td (Some ''swatch''), Td (Some (''FF0000'' @ [CHR 0x09]))]
   \<and> getColorInfoColumn [0, 0, 0, 0]
        [[Td (Some ''Red  ''), Th (Some ''x'')],
         [Td (Some ''swatch'')],
         [Td (Some (''FF0000'' @ [CHR 0x09]))]] 1
      = (Inr (Some \<lparr>name = ''Red'', pms = None, rgb = None, hex = Some (Num 0xFF0000),
                      sameAs = None\<rparr>),
         [0, 0, 0, 0])"
proof -
  let ?t = "[[Td (Some ''Red  ''), Th (Some ''x'')],
         [Td (Some ''swatch'')],
         [Td (Some (''FF0000'' @ [CHR 0x09]))]]"
  have c2: "tdNthChild ?t 2 = []"
    by (simp add: tdNthChild_def)
  have c1: "tdNthChild ?t 1
            = [Td (Some ''Red  ''), Td (Some ''swatch''), Td (Some (''FF0000'' @ [CHR 0x09]))]"
    by (simp add: tdNthChild_def)
  have trim: "trimEnd ''Red  '' = ''Red''" "trimEnd (''FF0000'' @ [CHR 0x09]) = ''FF0000''"
    by (simp_all add: trimEnd_def char_eval)
  have new: "ColorInfo_new [0, 0, 0, 0] (Some ''Red'') [Some ''FF0000'']
     = (Inr \<lparr>name = ''Red'', pms = None, rgb = None, hex = Some (Num 0xFF0000), sameAs = None\<rparr>,
        [0, 0, 0, 0])"
    by (simp add: ColorInfo_new_def isValid_def regexp_eval char_eval parse_eval)
  show ?thesis
    using getColorInfoColumn_name_and_values [of ?t 2 "[0, 0, 0, 0]"]
      getColorInfoColumn_name_and_values [of ?t 1 "[0, 0, 0, 0]"]
      c1 c2 trim new
    by (simp add: List.map_filter_def)
qed

section \<open>The rows of the scale table\<close>

lemmas scale_eval = rowCells_def emit_def test_def regExpExec_def incrementNameRe_def charMatch_def

lemma scaleRows_append:
  "scaleRows re h i (xs @ ys) =
     (case scaleRows re h i xs of
        (e1, h1) \<Rightarrow>
          (case scaleRows re h1 (i + length xs) ys of (e2, h2) \<Rightarrow> (e1 @ e2, h2)))"
proof (induction xs arbitrary: h i)
  case Nil
  show ?case by simp
next
  case (Cons x xs)
  show ?case
    by (simp add: Cons.IH emit_def Let_def split: prod.splits bool.splits)
qed

text \<open>The cells of a row that the loop works on are the texts of its \<open>td\<close> elements
  that are neither null nor empty, in order.\<close>

lemma rowCells_explicit: "rowCells row = [t. Td (Some t) \<leftarrow> row, t \<noteq> []]"
proof (induction row)
  case Nil
  show ?case by (simp add: rowCells_def)
next
  case (Cons c row)
  then have IH: "map the (filter (\<lambda>text. text \<noteq> None)
       (map (\<lambda>cell. case textContent cell of
                       None \<Rightarrow> None
                     | Some t \<Rightarrow> if t = [] then None else Some t)
            (filter isTd row))) = [t. Td (Some t) \<leftarrow> row, t \<noteq> []]"
    by (simp add: rowCells_def)
  show ?case
  proof (cases c)
    case (Td x)
    then show ?thesis
      using IH by (cases x) (simp_all add: rowCells_def)
  next
    case (Th x)
    then show ?thesis
      using IH by (simp add: rowCells_def)
  qed
qed

text \<open>
  Claim C9. Let \<open>cells\<close> be the texts of the \<open>td\<close> elements of a row after the header
  that are neither null nor empty. When they are fewer than four, the row yields nothing:
  the run is the run over the rows before it, then one diagnostic on the error stream, then
  the run over the rows after it, which starts from the matcher state the rows before left.
  The diagnostic reads \<open>Row i should have 4 elements but only has n.\<close> with the row index
  \<open>i\<close> and the number \<open>n\<close> of these cells, followed by the JSON text of the cells.
\<close>

theorem too_few_cells_row_is_skipped:
  "0 < i \<Longrightarrow> i < length table \<Longrightarrow> cells = [t. Td (Some t) \<leftarrow> table ! i, t \<noteq> []] \<Longrightarrow>
   length cells < 4 \<Longrightarrow>
   enumerateScaleIncrements h table
   = (case scaleRows (incrementNameRe (length h)) (h @ [0]) 0 (take i table) of
        (before, h1) \<Rightarrow>
          (case scaleRows (incrementNameRe (length h)) h1 (Suc i) (drop (Suc i) table) of
             (after, h2) \<Rightarrow>
               (before
                @ StderrWrite ([CHR 0x0A] @ ''Row '' @ natToString 10 i
                               @ '' should have 4 elements but only has ''
                               @ natToString 10 (length cells) @ ''.'' @ [CHR 0x0A]
                               @ stringifyStrings cells @ [CHR 0x0A])
                # after, h2)))"
proof -
  assume i: "0 < i" "i < length table"
    and cells: "cells = [t. Td (Some t) \<leftarrow> table ! i, t \<noteq> []]"
    and few: "length cells < 4"
  have rc: "rowCells (table ! i) = cells"
    using cells by (simp only: rowCells_explicit)
  have split: "table = take i table @ (table ! i) # drop (Suc i) table"
    using i(2) by (simp add: id_take_nth_drop)
  have len: "length (take i table) = i"
    using i(2) by simp
  have "enumerateScaleIncrements h table
        = scaleRows (incrementNameRe (length h)) (h @ [0]) 0
            (take i table @ (table ! i) # drop (Suc i) table)"
    using split by (simp add: enumerateScaleIncrements_def)
  also have "\<dots> = (case scaleRows (incrementNameRe (length h)) (h @ [0]) 0 (take i table) of
        (before, h1) \<Rightarrow>
          (case scaleRows (incrementNameRe (length h)) h1 (Suc i) (drop (Suc i) table) of
             (after, h2) \<Rightarrow>
               (before @ StderrWrite (tooFewMessage i cells) # after, h2)))"
    unfolding scaleRows_append len
    using i(1) few rc by (simp add: emit_def split: prod.splits)
  finally show ?thesis
    by (simp add: tooFewMessage_def)
qed

theorem too_few_cells_row_is_skipped_witness:
  "(0::nat) < 1
   \<and> 1 < length [[Th (Some ''Base''), Th (Some ''Name''), Th (Some ''Px''), Th (Some ''Rem'')],
                  [Td (Some []), Td (Some ''16''), Td None, Th (Some ''x''), Td (Some ''Base1''),
                   Td (Some ''16px'')],
                  [Td (Some ''16''), Td (Some ''Base-1''), Td (Some ''16px''), Td (Some ''1rem'')]]
   \<and> [t. Td (Some t) \<leftarrow> [Td (Some []), Td (Some ''16''), Td None, Th (Some ''x''),
                             Td (Some ''Base1''), Td (Some ''16px'')], t \<noteq> []]
     = [''16'', ''Base1'', ''16px'']
   \<and> length [''16'', ''Base1'', ''16px''] < 4
   \<and> enumerateScaleIncrements []
        [[Th (Some ''Base''), Th (Some ''Name''), Th (Some ''Px''), Th (Some ''Rem'')],
         [Td (Some []), Td (Some ''16''), Td None, Th (Some ''x''), Td (Some ''Base1''),
          Td (Some ''16px'')],
         [Td (Some ''16''), Td (Some ''Base-1''), Td (Some ''16px''), Td (Some ''1rem'')]]
     = ([StderrWrite ([CHR 0x0A] @ ''Row 1 should have 4 elements but only has 3.'' @ [CHR 0x0A]
                      @ ''['' @ [CHR 0x22] @ ''16'' @ [CHR 0x22] @ '','' @ [CHR 0x22] @ ''Base1''
                      @ [CHR 0x22] @ '','' @ [CHR 0x22] @ ''16px'' @ [CHR 0x22] @ '']''
                      @ [CHR 0x0A]),
         YieldScale \<lparr>base = ''16'', incrementName = ''Base-1'', pixelSize = ''16px'',
                      remSize = ''1rem''\<rparr>], [6])"
proof -
  let ?hdr = "[Th (Some ''Base''), Th (Some ''Name''), Th (Some ''Px''), Th (Some ''Rem'')]"
  let ?short = "[Td (Some []), Td (Some ''16''), Td None, Th (Some ''x''), Td (Some ''Base1''),
                 Td (Some ''16px'')]"
  let ?good = "[Td (Some ''16''), Td (Some ''Base-1''), Td (Some ''16px''), Td (Some ''1rem'')]"
  have cells: "[''16'', ''Base1'', ''16px''] = [t. Td (Some t) \<leftarrow> [?hdr, ?short, ?good] ! 1, t \<noteq> []]"
    by simp
  have before: "scaleRows (incrementNameRe 0) [0] 0 [?hdr] = ([], [0])"
    by simp
  have after: "scaleRows (incrementNameRe 0) [0] 2 [?good]
     = ([YieldScale \<lparr>base = ''16'', incrementName = ''Base-1'', pixelSize = ''16px'',
                      remSize = ''1rem''\<rparr>], [6])"
    by (simp add: scale_eval char_eval)
  have numbers: "natToString 10 1 = ''1''"
      "natToString 10 (length [''16'', ''Base1'', ''16px'']) = ''3''"
    by (simp_all add: number_eval)
  have json: "stringifyStrings [''16'', ''Base1'', ''16px'']
      = ''['' @ [CHR 0x22] @ ''16'' @ [CHR 0x22] @ '','' @ [CHR 0x22] @ ''Base1'' @ [CHR 0x22]
        @ '','' @ [CHR 0x22] @ ''16px'' @ [CHR 0x22] @ '']''"
    by (simp add: stringifyStrings_def quoteJSONString_def quoteJSONChar_def char_eval)
  have "enumerateScaleIncrements [] [?hdr, ?short, ?good]
     = ([StderrWrite ([CHR 0x0A] @ ''Row 1 should have 4 elements but only has 3.'' @ [CHR 0x0A]
                      @ ''['' @ [CHR 0x22] @ ''16'' @ [CHR 0x22] @ '','' @ [CHR 0x22] @ ''Base1''
                      @ [CHR 0x22] @ '','' @ [CHR 0x22] @ ''16px'' @ [CHR 0x22] @ '']''
                      @ [CHR 0x0A]),
         YieldScale \<lparr>base = ''16'', incrementName = ''Base-1'', pixelSize = ''16px'',
                      remSize = ''1rem''\<rparr>], [6])"
    using too_few_cells_row_is_skipped
        [of 1 "[?hdr, ?short, ?good]" "[''16'', ''Base1'', ''16px'']" "[]", OF _ _ cells]
      before after numbers json
    by (simp add: numeral_2_eq_2)
  then show ?thesis
    by simp
qed

text \<open>
  Claim C3 fails on the code. The pattern object carries the \<open>g\<close> flag and \<open>test\<close>
  resumes at its \<open>lastIndex\<close>: after the row \<open>Base-1\<close> has matched, the search in the
  next name starts at position 6. The name \<open>Base-2\<close> matches the pattern, yet its row is
  skipped with the diagnostic of an invalid name.
\<close>

theorem second_matching_row_is_skipped:
  "fst (test [0] (incrementNameRe 0) ''Base-2'')
   \<and> enumerateScaleIncrements []
        [[Th (Some ''Base''), Th (Some ''Name''), Th (Some ''Px''), Th (Some ''Rem'')],
         [Td (Some ''16''), Td (Some ''Base-1''), Td (Some ''16px''), Td (Some ''1rem'')],
         [Td (Some ''18''), Td (Some ''Base-2''), Td (Some ''18px''), Td (Some ''1.125rem'')]]
     = ([YieldScale \<lparr>base = ''16'', incrementName = ''Base-1'', pixelSize = ''16px'',
                      remSize = ''1rem''\<rparr>,
         StderrWrite (''Row 2 has an invalid increment name: Base-2. Expected to match Base-?''
                      @ [CHR 0x5C] @ ''d+'' @ [CHR 0x0A])], [0])"
  by (simp add: enumerateScaleIncrements_def invalidNameMessage_def incrementNameRe_source_def
        scale_eval char_eval number_eval)

section \<open>Two runs over one table\<close>

text \<open>A run of \<open>enumerateScaleIncrements\<close> works on the cell it has allocated; the events
  are the same in any store. A run of \<open>getColorInfo\<close> never reads the store.\<close>

lemma test_fresh:
  "\<exists>b k'. test (h @ [k]) (incrementNameRe (length h)) s = (b, h @ [k'])
          \<and> test (h' @ [k]) (incrementNameRe (length h')) s = (b, h' @ [k'])"
  by (auto simp: test_def regExpExec_def incrementNameRe_def Let_def split: option.splits)

lemma scaleRows_fresh:
  "\<exists>events k'. scaleRows (incrementNameRe (length h)) (h @ [k]) i rows = (events, h @ [k'])
       \<and> scaleRows (incrementNameRe (length h')) (h' @ [k]) i rows = (events, h' @ [k'])"
proof (induction rows arbitrary: i k)
  case Nil
  show ?case by simp
next
  case (Cons row rows)
  obtain b k1 where t: "test (h @ [k]) (incrementNameRe (length h)) (rowCells row ! 1) = (b, h @ [k1])"
      "test (h' @ [k]) (incrementNameRe (length h')) (rowCells row ! 1) = (b, h' @ [k1])"
    using test_fresh [of h k "rowCells row ! 1" h'] by blast
  obtain ev k2 where same:
      "scaleRows (incrementNameRe (length h)) (h @ [k]) (Suc i) rows = (ev, h @ [k2])"
      "scaleRows (incrementNameRe (length h')) (h' @ [k]) (Suc i) rows = (ev, h' @ [k2])"
    using Cons.IH [of k "Suc i"] by blast
  obtain ev' k3 where moved:
      "scaleRows (incrementNameRe (length h)) (h @ [k1]) (Suc i) rows = (ev', h @ [k3])"
      "scaleRows (incrementNameRe (length h')) (h' @ [k1]) (Suc i) rows = (ev', h' @ [k3])"
    using Cons.IH [of k1 "Suc i"] by blast
  show ?case
    using t same moved by (cases b) (auto simp: emit_def Let_def)
qed

lemma enumerateScaleIncrements_fresh:
  "\<exists>events k. enumerateScaleIncrements h table = (events, h @ [k])
       \<and> enumerateScaleIncrements h' table = (events, h' @ [k])"
  using scaleRows_fresh [of h 0 0 table h'] by (simp add: enumerateScaleIncrements_def)

lemma ColorInfo_new_store_indep:
  "fst (ColorInfo_new h nm vals) = fst (ColorInfo_new h' nm vals)"
proof (cases nm)
  case None
  then show ?thesis by (simp add: ColorInfo_new_def)
next
  case (Some n)
  let ?c0 = "\<lparr>name = n, pms = None, rgb = None, hex = None, sameAs = None\<rparr>"
  obtain c1 h1 where s1: "foldl scanValue (?c0, h) vals = (c1, h1)"
    by (cases "foldl scanValue (?c0, h) vals")
  obtain c2 h2 where s2: "foldl scanValue (?c0, h') vals = (c2, h2)"
    by (cases "foldl scanValue (?c0, h') vals")
  have "c1 = c2"
    using foldl_scanValue_store_indep [of ?c0 h vals h'] s1 s2 by simp
  with Some s1 s2 show ?thesis
    by (simp add: ColorInfo_new_def)
qed

lemma getColorInfoColumn_store_indep:
  "fst (getColorInfoColumn h table i) = fst (getColorInfoColumn h' table i)"
proof (cases "tdNthChild table i = []")
  case True
  then show ?thesis
    by (simp add: getColorInfoColumn_def)
next
  case False
  let ?nm = "case textContentsOf (tdNthChild table i) of [] \<Rightarrow> None | t # ts \<Rightarrow> Some t"
  let ?vals = "map Some (drop 1 (textContentsOf (tdNthChild table i)))"
  have "fst (ColorInfo_new h ?nm ?vals) = fst (ColorInfo_new h' ?nm ?vals)"
    by (rule ColorInfo_new_store_indep)
  with False show ?thesis
    by (cases "ColorInfo_new h ?nm ?vals"; cases "ColorInfo_new h' ?nm ?vals")
       (auto simp: getColorInfoColumn_def Let_def split: sum.splits)
qed

lemma getColorInfoLoop_store_indep:
  assumes "\<And>h h' i. fst (column h i) = fst (column h' i)"
  shows "fst (getColorInfoLoop column h i) = fst (getColorInfoLoop column h' i)"
proof (induction "4 - i" arbitrary: i h h')
  case 0
  then have "\<not> i \<le> 3" by simp
  then show ?case
    by (simp add: getColorInfoLoop.simps [of column _ i])
next
  case (Suc n)
  then have i: "i \<le> 3" by simp
  have IH: "fst (getColorInfoLoop column h1 (i + 1)) = fst (getColorInfoLoop column h2 (i + 1))"
    for h1 h2
    using Suc.hyps(1) [of "i + 1" h1 h2] Suc.hyps(2) by simp
  obtain r h1 where c1: "column h i = (r, h1)"
    by (cases "column h i")
  obtain r' h2 where c2: "column h' i = (r', h2)"
    by (cases "column h' i")
  have r: "r' = r"
    using assms [of h i h'] c1 c2 by simp
  obtain ev res hf where l1: "getColorInfoLoop column h1 (i + 1) = ((ev, res), hf)"
    by (cases "getColorInfoLoop column h1 (i + 1)") auto
  obtain ev' res' hf' where l2: "getColorInfoLoop column h2 (i + 1) = ((ev', res'), hf')"
    by (cases "getColorInfoLoop column h2 (i + 1)") auto
  have same: "ev' = ev \<and> res' = res"
    using IH [of h1 h2] l1 l2 by simp
  show ?case
    using i c1 c2 r l1 l2 same
    by (simp add: getColorInfoLoop.simps [of column _ i] split: sum.splits option.splits)
qed

lemma getColorInfo_store_indep:
  "fst (getColorInfo h table) = fst (getColorInfo h' table)"
  unfolding getColorInfo_def
  by (rule getColorInfoLoop_store_indep) (rule getColorInfoColumn_store_indep)

text \<open>A matcher shared between two runs would not do: it keeps the position that the first
  run left in it.\<close>

lemma shared_matcher_differs:
  "fst (scaleRows (incrementNameRe 0)
          (snd (scaleRows (incrementNameRe 0) [0] 0
                  [[Th (Some ''Name'')],
                   [Td (Some ''16''), Td (Some ''Base-1''), Td (Some ''16px''), Td (Some ''1rem'')]]))
          0 [[Th (Some ''Name'')],
             [Td (Some ''16''), Td (Some ''Base-1''), Td (Some ''16px''), Td (Some ''1rem'')]])
   \<noteq> fst (scaleRows (incrementNameRe 0) [0] 0
            [[Th (Some ''Name'')],
             [Td (Some ''16''), Td (Some ''Base-1''), Td (Some ''16px''), Td (Some ''1rem'')]])"
  by (simp add: scale_eval char_eval)

text \<open>
  Claim C7. A second run of \<open>enumerateScaleIncrements\<close> over the same table, in the
  store that the first run left, has the events of the first run, and each run allocates
  its own matcher; a second run of \<open>getColorInfo\<close> has the events and the outcome of
  the first.
\<close>

theorem extraction_twice_same_events:
  "fst (enumerateScaleIncrements (snd (enumerateScaleIncrements h table)) table)
     = fst (enumerateScaleIncrements h table)
   \<and> (\<exists>k. snd (enumerateScaleIncrements h table) = h @ [k])
   \<and> fst (getColorInfo (snd (getColorInfo h colorTable)) colorTable) = fst (getColorInfo h colorTable)"
proof -
  obtain ev k where run1: "enumerateScaleIncrements h table = (ev, h @ [k])"
    and run2: "enumerateScaleIncrements (snd (enumerateScaleIncrements h table)) table
               = (ev, snd (enumerateScaleIncrements h table) @ [k])"
    using enumerateScaleIncrements_fresh [of h table "snd (enumerateScaleIncrements h table)"]
    by blast
  have "fst (getColorInfo (snd (getColorInfo h colorTable)) colorTable)
        = fst (getColorInfo h colorTable)"
    by (rule getColorInfo_store_indep)
  with run1 run2 show ?thesis
    by simp
qed
theorem extraction_twice_same_events_witness:
  "enumerateScaleIncrements [0, 0, 0, 0]
        [[Th (Some ''Name'')],
         [Td (Some ''16''), Td (Some ''Base-1''), Td (Some ''16px''), Td (Some ''1rem'')]]
     = ([YieldScale \<lparr>base = ''16'', incrementName = ''Base-1'', pixelSize = ''16px'',
                      remSize = ''1rem''\<rparr>], [0, 0, 0, 0, 6])
   \<and> fst (enumerateScaleIncrements [0, 0, 0, 0, 6]
        [[Th (Some ''Name'')],
         [Td (Some ''16''), Td (Some ''Base-1''), Td (Some ''16px''), Td (Some ''1rem'')]])
     = [YieldScale \<lparr>base = ''16'', incrementName = ''Base-1'', pixelSize = ''16px'',
                     remSize = ''1rem''\<rparr>]"
proof -
  let ?t = "[[Th (Some ''Name'')],
         [Td (Some ''16''), Td (Some ''Base-1''), Td (Some ''16px''), Td (Some ''1rem'')]]"
  have first: "enumerateScaleIncrements [0, 0, 0, 0] ?t
     = ([YieldScale \<lparr>base = ''16'', incrementName = ''Base-1'', pixelSize = ''16px'',
                      remSize = ''1rem''\<rparr>], [0, 0, 0, 0, 6])"
    by (simp add: enumerateScaleIncrements_def scale_eval char_eval)
  then show ?thesis
    using extraction_twice_same_events [of "[0, 0, 0, 0]" ?t "[]"]
    by simp
qed

section \<open>The error handler of \<open>getColorInfo\<close>\<close>









end
